theory Spec2Isabelle
  imports Complex_Main
begin

section \<open>Python values used by \<open>visualization_markers.py\<close>\<close>

text \<open>
  The exceptions the module raises (or lets escape).  \<open>ValueError\<close> and
  \<open>FileNotFoundError\<close> are raised by the module itself and carry its message;
  \<open>IndexError\<close> is what Python raises for \<open>shape[1]\<close> on a tuple that
  has no second component.
\<close>

datatype error =
    ValueError string
  | FileNotFoundError string
  | IndexError string

text \<open>
  A numpy array: its \<open>shape\<close> tuple and its elements in row-major order.
  The element type is a parameter: the module never computes with the
  elements, it moves them and hands them to the conversions of the host.
\<close>

record 'a ndarray =
  shape :: "nat list"
  data :: "'a list"

text \<open>
  An argument of type \<open>np.ndarray | torch.Tensor\<close>.  The module turns a
  tensor into an array with \<open>.detach().cpu().numpy()\<close>, which keeps shape and
  elements.
\<close>

datatype 'a array_like =
    NumpyArray "'a ndarray"
  | TorchTensor "'a ndarray"

fun to_numpy :: "'a array_like \<Rightarrow> 'a ndarray" where
  "to_numpy (NumpyArray a) = a"
| "to_numpy (TorchTensor a) = a"

text \<open>
  The argument \<open>marker_indices: list[int] | np.ndarray | torch.Tensor\<close>.
  A list goes through \<open>np.array\<close>, which for a list of integers gives a
  rank-1 array of the same length.
\<close>

datatype indices_like =
    IndexList "int list"
  | IndexArray "int array_like"

definition np_array :: "int list \<Rightarrow> int ndarray" where
  "np_array xs = \<lparr>shape = [length xs], data = xs\<rparr>"

fun indices_to_numpy :: "indices_like \<Rightarrow> int ndarray" where
  "indices_to_numpy (IndexList xs) = np_array xs"
| "indices_to_numpy (IndexArray a) = to_numpy a"

text \<open>\<open>t[i]\<close> on a tuple, for a non-negative index.\<close>

definition tuple_getitem :: "nat list \<Rightarrow> nat \<Rightarrow> error + nat" where
  "tuple_getitem t i =
     (if i < length t then Inr (t ! i) else Inl (IndexError ''tuple index out of range''))"

subsection \<open>Formatting: \<open>str\<close> of an integer and of a shape tuple\<close>

definition digit_char :: "nat \<Rightarrow> char" where
  "digit_char d = ''0123456789'' ! d"

function str_nat :: "nat \<Rightarrow> string" where
  "str_nat n = (if n < 10 then [digit_char n] else str_nat (n div 10) @ [digit_char (n mod 10)])"
  by pat_completeness auto
termination
  by (relation "measure (\<lambda>n. n)") auto

declare str_nat.simps [simp del]

fun join_comma :: "string list \<Rightarrow> string" where
  "join_comma [] = []"
| "join_comma [s] = s"
| "join_comma (s # t # ss) = s @ '', '' @ join_comma (t # ss)"

text \<open>Python prints a one-element tuple as \<open>(4,)\<close>.\<close>

definition str_tuple :: "nat list \<Rightarrow> string" where
  "str_tuple t =
     (case t of
        [d] \<Rightarrow> ''('' @ str_nat d @ '',)''
      | _ \<Rightarrow> ''('' @ join_comma (map str_nat t) @ '')'')"

section \<open>The host: array conversions and the point instancer\<close>

subsection \<open>Floating-point values and their narrowing\<close>

text \<open>
  A Python float, as an element of a numpy array of floats: a finite value, an
  infinity or NaN.  The finite values are taken from the reals, of which the
  values of the narrower formats of the host are a subset.
\<close>

datatype py_float = Finite real | PosInf | NegInf | NaN

instantiation py_float :: zero
begin

definition zero_py_float :: py_float where
  "zero_py_float = Finite 0"

instance ..

end

text \<open>Rounding a non-negative real to an integer: to nearest, ties to even.\<close>

definition round_even :: "real \<Rightarrow> int" where
  "round_even y =
     (let n = \<lfloor>y\<rfloor>; r = y - of_int n
      in if r < 1 / 2 then n else if 1 / 2 < r then n + 1 else if even n then n else n + 1)"

text \<open>
  The exponent of \<open>a\<close>: how often \<open>a \<ge> 1\<close> is halved to get below 2, at most
  \<open>k\<close> times; how often \<open>a < 1\<close> is doubled to reach 1, at most \<open>k\<close> times.
\<close>

fun halvings :: "nat \<Rightarrow> real \<Rightarrow> nat" where
  "halvings 0 a = 0"
| "halvings (Suc k) a = (if a < 2 then 0 else Suc (halvings k (a / 2)))"

fun doublings :: "nat \<Rightarrow> real \<Rightarrow> nat" where
  "doublings 0 a = 0"
| "doublings (Suc k) a = (if 1 \<le> a then 0 else Suc (doublings k (a * 2)))"

text \<open>
  The spacing of the values of a binary format around \<open>a \<ge> 0\<close>: \<open>p\<close> bits of
  significand, largest exponent \<open>emax\<close>, smallest exponent \<open>- emin\<close> (below
  \<open>2 ^ - emin\<close> the values are subnormal and evenly spaced).
\<close>

definition ulp :: "nat \<Rightarrow> nat \<Rightarrow> nat \<Rightarrow> real \<Rightarrow> real" where
  "ulp p emax emin a =
     (if 1 \<le> a
      then (let e = halvings (Suc emax) a
            in if p - 1 \<le> e then 2 ^ (e - (p - 1)) else 1 / 2 ^ (p - 1 - e))
      else 1 / 2 ^ (doublings emin a + (p - 1)))"

text \<open>
  Narrowing a real to such a format, as IEEE 754 does by default: the nearest
  value of the format, ties to the even significand, and an infinity once the
  rounded magnitude reaches \<open>2 ^ (emax + 1)\<close>.
\<close>

definition round_ieee :: "nat \<Rightarrow> nat \<Rightarrow> nat \<Rightarrow> real \<Rightarrow> py_float" where
  "round_ieee p emax emin x =
     (let a = \<bar>x\<bar>; u = ulp p emax emin a; r = of_int (round_even (a / u)) * u
      in if 2 ^ Suc emax \<le> r then (if x < 0 then NegInf else PosInf)
         else Finite (if x < 0 then - r else r))"

text \<open>Single precision (binary32) and half precision (binary16).\<close>

fun to_float32 :: "py_float \<Rightarrow> py_float" where
  "to_float32 (Finite x) = round_ieee 24 127 126 x"
| "to_float32 v = v"

fun to_float16 :: "py_float \<Rightarrow> py_float" where
  "to_float16 (Finite x) = round_ieee 11 15 14 x"
| "to_float16 v = v"

subsection \<open>The array conversions of \<open>pxr.Vt\<close>\<close>

text \<open>An array with every element converted, the shape kept.\<close>

definition astype :: "('a \<Rightarrow> 'b) \<Rightarrow> 'a ndarray \<Rightarrow> 'b ndarray" where
  "astype f a = \<lparr>shape = shape a, data = map f (data a)\<rparr>"

text \<open>
  \<open>Vt.Vec3fArray.FromNumpy\<close> and \<open>Vt.QuathArray.FromNumpy\<close>, through which
  \<open>visualize\<close> passes every array of floats on its way to the instancer.  They
  belong to the host library and narrow the elements, to single precision and to
  half precision; \<open>visualize\<close> takes them as they come, so they are a
  parameter here.
\<close>

record 'f vt_module =
  Vec3fArray_FromNumpy :: "'f ndarray \<Rightarrow> 'f ndarray"
  QuathArray_FromNumpy :: "'f ndarray \<Rightarrow> 'f ndarray"

text \<open>The conversions on Python floats: element by element, by IEEE 754 rounding.\<close>

definition pxr_Vt :: "py_float vt_module" where
  "pxr_Vt =
     \<lparr>Vec3fArray_FromNumpy = astype to_float32,
      QuathArray_FromNumpy = astype to_float16\<rparr>"

text \<open>
  \<open>Vt.IntArray.FromNumpy\<close>: the elements become 32-bit signed integers, an
  integer outside that range wrapping around.
\<close>

definition to_int32 :: "int \<Rightarrow> int" where
  "to_int32 i = (i + 2 ^ 31) mod 2 ^ 32 - 2 ^ 31"

definition IntArray_FromNumpy :: "int ndarray \<Rightarrow> int ndarray" where
  "IntArray_FromNumpy a = astype to_int32 a"

subsection \<open>The point instancer\<close>

datatype visibility_token = Inherited | Invisible

datatype attr = Positions | Orientations | Scales | ProtoIndices

text \<open>
  A prototype prim created below the instancer, with what
  \<open>_add_markers_prototypes\<close> sets on it.
\<close>

record 'f prim =
  prim_path_of :: string
  prim_type_of :: string
  usd_path_of :: "string option"
  scale_of :: "'f list option"
  attributes_of :: "(string \<times> 'f) list option"
  invisible_to_secondary_rays :: bool
  prim_visible :: bool
  material_color :: "'f list option"

text \<open>
  The \<open>UsdGeom.PointInstancer\<close> the class owns: its visibility attribute, the
  targets of its prototypes relationship, its four array attributes (\<open>None\<close>
  while never set), the child prims, and the list of attributes written so far,
  oldest first.
\<close>

record 'f instancer =
  visibility :: visibility_token
  prototypes :: "string list"
  positions_attr :: "'f ndarray option"
  orientations_attr :: "'f ndarray option"
  scales_attr :: "'f ndarray option"
  proto_indices_attr :: "int ndarray option"
  children :: "'f prim list"
  writes :: "attr list"

text \<open>
  \<open>Get...Attr().Set(value)\<close>: the attribute holds the value it is given, which
  in \<open>visualize\<close> is the result of the conversion applied at the call.
\<close>

definition set_positions :: "'f ndarray \<Rightarrow> 'f instancer \<Rightarrow> 'f instancer" where
  "set_positions a h = h\<lparr>positions_attr := Some a, writes := writes h @ [Positions]\<rparr>"

definition set_orientations :: "'f ndarray \<Rightarrow> 'f instancer \<Rightarrow> 'f instancer" where
  "set_orientations a h = h\<lparr>orientations_attr := Some a, writes := writes h @ [Orientations]\<rparr>"

definition set_scales :: "'f ndarray \<Rightarrow> 'f instancer \<Rightarrow> 'f instancer" where
  "set_scales a h = h\<lparr>scales_attr := Some a, writes := writes h @ [Scales]\<rparr>"

definition set_proto_indices :: "int ndarray \<Rightarrow> 'f instancer \<Rightarrow> 'f instancer" where
  "set_proto_indices a h = h\<lparr>proto_indices_attr := Some a, writes := writes h @ [ProtoIndices]\<rparr>"

section \<open>The configuration\<close>

text \<open>
  \<open>VisualizationMarkersCfg.MarkerCfg\<close> and its subclass \<open>FileMarkerCfg\<close>.
  The code tells them apart with \<open>isinstance\<close>, so the class is a constructor.
\<close>

record 'f marker_fields =
  visible :: bool
  prim_type :: string
  scale :: "'f list option"
  color :: "'f list option"
  attributes :: "(string \<times> 'f) list option"

datatype 'f marker_cfg =
    MarkerCfg "'f marker_fields"
  | FileMarkerCfg "'f marker_fields" string

fun base :: "'f marker_cfg \<Rightarrow> 'f marker_fields" where
  "base (MarkerCfg f) = f"
| "base (FileMarkerCfg f p) = f"

text \<open>\<open>cfg.markers\<close>: a dict, in insertion order.\<close>

type_synonym 'f markers_cfg = "(string \<times> 'f marker_cfg) list"

section \<open>The class \<open>VisualizationMarkers\<close>\<close>

record 'f markers =
  prim_path :: string
  cfg :: "'f markers_cfg"
  instancer_manager :: "'f instancer"
  count :: nat

definition num_prototypes :: "'f markers \<Rightarrow> nat" where
  "num_prototypes self = length (cfg self)"

definition set_visibility :: "'f markers \<Rightarrow> bool \<Rightarrow> 'f markers" where
  "set_visibility self vis =
     self\<lparr>instancer_manager :=
       (instancer_manager self)\<lparr>visibility := (if vis then Inherited else Invisible)\<rparr>\<rparr>"

definition is_visible :: "'f markers \<Rightarrow> bool" where
  "is_visible self = (visibility (instancer_manager self) \<noteq> Invisible)"

subsection \<open>Construction\<close>

definition define_prim :: "'f instancer" where
  "define_prim =
     \<lparr>visibility = Inherited, prototypes = [], positions_attr = None,
      orientations_attr = None, scales_attr = None, proto_indices_attr = None,
      children = [], writes = []\<rparr>"

text \<open>
  The checks at the head of the loop body of \<open>_add_markers_prototypes\<close>: they
  raise, or give the \<open>usd_path\<close> the prim is created with.  Whether a file
  exists is the host's answer, \<open>check_file_path\<close>.
\<close>

fun resolve_usd_path :: "(string \<Rightarrow> bool) \<Rightarrow> 'f marker_cfg \<Rightarrow> error + string option" where
  "resolve_usd_path check_file_path (MarkerCfg f) =
     (if prim_type f = ''Xform''
      then Inl (ValueError ''Please use `FileMarkerCfg` for `prim_type` of `Xform`.'')
      else Inr None)"
| "resolve_usd_path check_file_path (FileMarkerCfg f usd_path) =
     (if \<not> check_file_path usd_path
      then Inl (FileNotFoundError (''USD file for the marker not found at: '' @ usd_path))
      else if prim_type f \<noteq> ''Xform''
      then Inl (ValueError (''Please use `prim_type` of `Xform` for `FileMarkerCfg`. Received: ''
                  @ prim_type f @ ''.''))
      else Inr (Some usd_path))"

text \<open>
  The rest of the loop body: the child prim is created, hidden from secondary
  rays, made visible or not, coloured, and added to the prototypes relationship.
\<close>

definition create_marker_prim ::
  "string \<Rightarrow> string \<Rightarrow> 'f marker_cfg \<Rightarrow> string option \<Rightarrow> 'f instancer \<Rightarrow> 'f instancer" where
  "create_marker_prim path name c usd_path h =
     (let marker_prim_path = path @ ''/'' @ name;
          p = \<lparr>prim_path_of = marker_prim_path,
               prim_type_of = prim_type (base c),
               usd_path_of = usd_path,
               scale_of = scale (base c),
               attributes_of = attributes (base c),
               invisible_to_secondary_rays = True,
               prim_visible = visible (base c),
               material_color = color (base c)\<rparr>
      in h\<lparr>children := children h @ [p],
            prototypes := prototypes h @ [marker_prim_path]\<rparr>)"

fun add_markers_prototypes ::
  "(string \<Rightarrow> bool) \<Rightarrow> string \<Rightarrow> 'f markers_cfg \<Rightarrow> 'f instancer \<Rightarrow> error + 'f instancer" where
  "add_markers_prototypes check_file_path path [] h = Inr h"
| "add_markers_prototypes check_file_path path ((name, c) # rest) h =
     (case resolve_usd_path check_file_path c of
        Inl e \<Rightarrow> Inl e
      | Inr usd_path \<Rightarrow>
          add_markers_prototypes check_file_path path rest
            (create_marker_prim path name c usd_path h))"

text \<open>
  \<open>__init__\<close>.  \<open>get_next_free_path\<close> is the host's.  An exception leaves no
  object, so the result is the error alone.
\<close>

definition init ::
  "(string \<Rightarrow> string) \<Rightarrow> (string \<Rightarrow> bool) \<Rightarrow> string \<Rightarrow> 'f::zero markers_cfg
     \<Rightarrow> error + 'f markers" where
  "init get_next_free_path check_file_path requested markers_cfg =
     (let path = get_next_free_path requested;
          h = define_prim
      in if length markers_cfg = 0
         then Inl (ValueError ''The `cfg.markers` cannot be empty. Received: {}'')
         else
           (case add_markers_prototypes check_file_path path markers_cfg h of
              Inl e \<Rightarrow> Inl e
            | Inr h \<Rightarrow>
                (let h = set_proto_indices \<lparr>shape = [1], data = [0]\<rparr> h;
                     h = set_positions \<lparr>shape = [1, 3], data = [0, 0, 0]\<rparr> h
                 in Inr \<lparr>prim_path = path, cfg = markers_cfg,
                          instancer_manager = h, count = 1\<rparr>)))"

subsection \<open>\<open>visualize\<close>\<close>

text \<open>
  What a block of \<open>visualize\<close> leaves: the exception with the object as it is
  at the raise, or the object and the local \<open>num_markers\<close>.
\<close>

type_synonym 'f step = "(error \<times> 'f markers) + ('f markers \<times> nat)"

definition shape_message :: "string \<Rightarrow> string \<Rightarrow> nat list \<Rightarrow> string" where
  "shape_message name expected received =
     ''Expected `'' @ name @ ''` to have shape '' @ expected @ ''. Received: ''
       @ str_tuple received @ ''.''"

definition write_attr :: "('f instancer \<Rightarrow> 'f instancer) \<Rightarrow> 'f markers \<Rightarrow> 'f markers" where
  "write_attr f self = self\<lparr>instancer_manager := f (instancer_manager self)\<rparr>"

text \<open>
  Modelled from the spec: \<open>convert_quat\<close> of \<open>omni.isaac.orbit.utils.math\<close>,
  which is not among the sources, as \<open>visualize\<close> calls it (\<open>to="xyzw"\<close>): each
  quaternion \<open>(w, x, y, z)\<close> becomes \<open>(x, y, z, w)\<close>, a pure reordering.
\<close>

fun roll_quats :: "'a list \<Rightarrow> 'a list" where
  "roll_quats (w # x # y # z # rest) = x # y # z # w # roll_quats rest"
| "roll_quats xs = xs"

definition convert_quat :: "'a ndarray \<Rightarrow> 'a ndarray" where
  "convert_quat quat = quat\<lparr>data := roll_quats (data quat)\<rparr>"

text \<open>The block \<open>-- position\<close>.\<close>

definition visualize_translations ::
  "'f vt_module \<Rightarrow> 'f array_like option \<Rightarrow> 'f markers \<Rightarrow> nat \<Rightarrow> 'f step" where
  "visualize_translations Vt translations self num_markers =
     (case translations of
        None \<Rightarrow> Inr (self, num_markers)
      | Some t \<Rightarrow>
          (let t = to_numpy t in
           case tuple_getitem (shape t) 1 of
             Inl e \<Rightarrow> Inl (e, self)
           | Inr d1 \<Rightarrow>
               if d1 \<noteq> 3 \<or> length (shape t) \<noteq> 2
               then Inl (ValueError (shape_message ''translations'' ''(M, 3)'' (shape t)), self)
               else
                 (let self = write_attr (set_positions (Vec3fArray_FromNumpy Vt t)) self in
                  case tuple_getitem (shape t) 0 of
                    Inl e \<Rightarrow> Inl (e, self)
                  | Inr d0 \<Rightarrow> Inr (self, d0))))"

text \<open>The block \<open>-- orientation\<close>.\<close>

definition visualize_orientations ::
  "'f vt_module \<Rightarrow> 'f array_like option \<Rightarrow> 'f markers \<Rightarrow> nat \<Rightarrow> 'f step" where
  "visualize_orientations Vt orientations self num_markers =
     (case orientations of
        None \<Rightarrow> Inr (self, num_markers)
      | Some q \<Rightarrow>
          (let q = to_numpy q in
           case tuple_getitem (shape q) 1 of
             Inl e \<Rightarrow> Inl (e, self)
           | Inr d1 \<Rightarrow>
               if d1 \<noteq> 4 \<or> length (shape q) \<noteq> 2
               then Inl (ValueError (shape_message ''orientations'' ''(M, 4)'' (shape q)), self)
               else
                 (let q = convert_quat q;
                      self = write_attr (set_orientations (QuathArray_FromNumpy Vt q)) self in
                  case tuple_getitem (shape q) 0 of
                    Inl e \<Rightarrow> Inl (e, self)
                  | Inr d0 \<Rightarrow> Inr (self, d0))))"

text \<open>The block \<open>-- scales\<close>.\<close>

definition visualize_scales ::
  "'f vt_module \<Rightarrow> 'f array_like option \<Rightarrow> 'f markers \<Rightarrow> nat \<Rightarrow> 'f step" where
  "visualize_scales Vt scales self num_markers =
     (case scales of
        None \<Rightarrow> Inr (self, num_markers)
      | Some s \<Rightarrow>
          (let s = to_numpy s in
           case tuple_getitem (shape s) 1 of
             Inl e \<Rightarrow> Inl (e, self)
           | Inr d1 \<Rightarrow>
               if d1 \<noteq> 3 \<or> length (shape s) \<noteq> 2
               then Inl (ValueError (shape_message ''scales'' ''(M, 3)'' (shape s)), self)
               else
                 (let self = write_attr (set_scales (Vec3fArray_FromNumpy Vt s)) self in
                  case tuple_getitem (shape s) 0 of
                    Inl e \<Rightarrow> Inl (e, self)
                  | Inr d0 \<Rightarrow> Inr (self, d0))))"

text \<open>The block \<open>-- status\<close>.\<close>

definition visualize_status ::
  "indices_like option \<Rightarrow> 'f markers \<Rightarrow> nat \<Rightarrow> 'f step" where
  "visualize_status marker_indices self num_markers =
     (if marker_indices \<noteq> None \<or> num_markers \<noteq> count self
      then
        (case marker_indices of
           Some m \<Rightarrow>
             (let m = indices_to_numpy m in
              if length (shape m) \<noteq> 1
              then Inl (ValueError (shape_message ''marker_indices'' ''(M,)'' (shape m)), self)
              else
                (let self = write_attr (set_proto_indices (IntArray_FromNumpy m)) self in
                 case tuple_getitem (shape m) 0 of
                   Inl e \<Rightarrow> Inl (e, self)
                 | Inr d0 \<Rightarrow> Inr (self, d0)))
         | None \<Rightarrow>
             if num_markers = 0
             then Inl (ValueError
               ''Number of markers cannot be zero! Hint: The function was called with no inputs?'',
               self)
             else
               Inr (write_attr
                      (set_proto_indices
                         \<lparr>shape = [num_markers], data = replicate num_markers 0\<rparr>) self,
                    num_markers))
      else Inr (self, num_markers))"

text \<open>
  \<open>visualize\<close>, with the module \<open>Vt\<close> it imports: \<open>Inr\<close> is a normal return
  with the object after the call, \<open>Inl\<close> an exception with the object as the
  call left it.
\<close>

definition visualize ::
  "'f vt_module \<Rightarrow> 'f markers \<Rightarrow> 'f array_like option \<Rightarrow> 'f array_like option
     \<Rightarrow> 'f array_like option \<Rightarrow> indices_like option
     \<Rightarrow> (error \<times> 'f markers) + 'f markers" where
  "visualize Vt self translations orientations scales marker_indices =
     (if \<not> is_visible self then Inr self
      else
        (case visualize_translations Vt translations self 0 of
           Inl x \<Rightarrow> Inl x
         | Inr (self, num_markers) \<Rightarrow>
        (case visualize_orientations Vt orientations self num_markers of
           Inl x \<Rightarrow> Inl x
         | Inr (self, num_markers) \<Rightarrow>
        (case visualize_scales Vt scales self num_markers of
           Inl x \<Rightarrow> Inl x
         | Inr (self, num_markers) \<Rightarrow>
        (case visualize_status marker_indices self num_markers of
           Inl x \<Rightarrow> Inl x
         | Inr (self, num_markers) \<Rightarrow> Inr (self\<lparr>count := num_markers\<rparr>))))))"

text \<open>The object a call leaves behind, whether it returned or raised.\<close>

fun state_after :: "(error \<times> 'f markers) + 'f markers \<Rightarrow> 'f markers" where
  "state_after (Inl (e, s)) = s"
| "state_after (Inr s) = s"

section \<open>Vocabulary of the specification\<close>

text \<open>Rank 2 with second dimension \<open>w\<close>; rank 1.\<close>

definition rank2_width :: "nat \<Rightarrow> 'a ndarray \<Rightarrow> bool" where
  "rank2_width w a = (length (shape a) = 2 \<and> shape a ! 1 = w)"

definition rank1 :: "'a ndarray \<Rightarrow> bool" where
  "rank1 a = (length (shape a) = 1)"

text \<open>The leading dimension \<open>M\<close> of an array.\<close>

definition leading_dim :: "'a ndarray \<Rightarrow> nat" where
  "leading_dim a = (case shape a of [] \<Rightarrow> 0 | d # ds \<Rightarrow> d)"

text \<open>The attributes written between two states of the object.\<close>

definition new_writes :: "'f markers \<Rightarrow> 'f markers \<Rightarrow> attr list" where
  "new_writes self self' =
     drop (length (writes (instancer_manager self))) (writes (instancer_manager self'))"

text \<open>
  Each provided \<open>translations\<close>, \<open>orientations\<close>, \<open>scales\<close> array passes its
  shape validation; the provided \<open>marker_indices\<close> passes its own.
\<close>

definition arrays_valid ::
  "'f array_like option \<Rightarrow> 'f array_like option \<Rightarrow> 'f array_like option \<Rightarrow> bool" where
  "arrays_valid translations orientations scales =
     ((case translations of None \<Rightarrow> True | Some t \<Rightarrow> rank2_width 3 (to_numpy t))
      \<and> (case orientations of None \<Rightarrow> True | Some q \<Rightarrow> rank2_width 4 (to_numpy q))
      \<and> (case scales of None \<Rightarrow> True | Some c \<Rightarrow> rank2_width 3 (to_numpy c)))"

definition indices_valid :: "indices_like option \<Rightarrow> bool" where
  "indices_valid marker_indices =
     (case marker_indices of None \<Rightarrow> True | Some m \<Rightarrow> rank1 (indices_to_numpy m))"

text \<open>
  The instance count implied by translations, orientations and scales: the
  leading dimension of the last of them that is provided, 0 when none is.
\<close>

definition implied_count ::
  "'f array_like option \<Rightarrow> 'f array_like option \<Rightarrow> 'f array_like option \<Rightarrow> nat" where
  "implied_count translations orientations scales =
     (case scales of
        Some c \<Rightarrow> leading_dim (to_numpy c)
      | None \<Rightarrow>
          (case orientations of
             Some q \<Rightarrow> leading_dim (to_numpy q)
           | None \<Rightarrow>
               (case translations of
                  Some t \<Rightarrow> leading_dim (to_numpy t)
                | None \<Rightarrow> 0)))"

text \<open>
  The leading dimension of the last non-null argument, in the order
  translations, orientations, scales, marker indices.
\<close>

definition last_leading_dim ::
  "'f array_like option \<Rightarrow> 'f array_like option \<Rightarrow> 'f array_like option
     \<Rightarrow> indices_like option \<Rightarrow> nat" where
  "last_leading_dim translations orientations scales marker_indices =
     (case marker_indices of
        Some m \<Rightarrow> leading_dim (indices_to_numpy m)
      | None \<Rightarrow> implied_count translations orientations scales)"

text \<open>The object once the provided, well-shaped arrays have been written.\<close>

definition arrays_written ::
  "'f vt_module \<Rightarrow> 'f array_like option \<Rightarrow> 'f array_like option \<Rightarrow> 'f array_like option
     \<Rightarrow> 'f markers \<Rightarrow> 'f markers" where
  "arrays_written Vt translations orientations scales self =
     (let s1 = (case translations of None \<Rightarrow> self
                | Some t \<Rightarrow>
                    write_attr (set_positions (Vec3fArray_FromNumpy Vt (to_numpy t))) self);
          s2 = (case orientations of None \<Rightarrow> s1
                | Some q \<Rightarrow>
                    write_attr
                      (set_orientations (QuathArray_FromNumpy Vt (convert_quat (to_numpy q))))
                      s1)
      in (case scales of None \<Rightarrow> s2
          | Some c \<Rightarrow> write_attr (set_scales (Vec3fArray_FromNumpy Vt (to_numpy c))) s2))"

text \<open>An index that a 32-bit signed integer holds; an array of such indices.\<close>

definition fits_int32 :: "int \<Rightarrow> bool" where
  "fits_int32 i = (- (2 ^ 31) \<le> i \<and> i < 2 ^ 31)"

definition all_fit_int32 :: "int ndarray \<Rightarrow> bool" where
  "all_fit_int32 a = list_all fits_int32 (data a)"

text \<open>The message of the zero-count check.\<close>

definition no_markers_message :: string where
  "no_markers_message =
     ''Number of markers cannot be zero! Hint: The function was called with no inputs?''"

text \<open>
  \<open>q'\<close> is \<open>q\<close> with every row \<open>(w, x, y, z)\<close> reordered to \<open>(x, y, z, w)\<close>:
  same shape, same number of elements, and each component of each row moved,
  none changed.
\<close>

definition xyzw_of_wxyz :: "'a ndarray \<Rightarrow> 'a ndarray \<Rightarrow> bool" where
  "xyzw_of_wxyz q q' =
     (shape q' = shape q \<and> length (data q') = length (data q)
      \<and> list_all
          (\<lambda>i. data q' ! (4 * i) = data q ! (4 * i + 1)
             \<and> data q' ! (4 * i + 1) = data q ! (4 * i + 2)
             \<and> data q' ! (4 * i + 2) = data q ! (4 * i + 3)
             \<and> data q' ! (4 * i + 3) = data q ! (4 * i))
          [0..<leading_dim q])"

text \<open>The object a block of \<open>visualize\<close> leaves, whether it raised or not.\<close>

fun step_state :: "'f step \<Rightarrow> 'f markers" where
  "step_state (Inl (e, s)) = s"
| "step_state (Inr (s, n)) = s"

text \<open>
  A prototype that is either a native shape or a file-backed asset: a non-file
  entry is not of the generic container kind \<open>Xform\<close>; a file entry is, and its
  file resolves.
\<close>

fun entry_ok :: "(string \<Rightarrow> bool) \<Rightarrow> 'f marker_cfg \<Rightarrow> bool" where
  "entry_ok check_file_path (MarkerCfg f) = (prim_type f \<noteq> ''Xform'')"
| "entry_ok check_file_path (FileMarkerCfg f usd_path) =
     (check_file_path usd_path \<and> prim_type f = ''Xform'')"

definition entries_ok :: "(string \<Rightarrow> bool) \<Rightarrow> 'f markers_cfg \<Rightarrow> bool" where
  "entries_ok check_file_path markers_cfg =
     list_all (\<lambda>(name, c). entry_ok check_file_path c) markers_cfg"

text \<open>The prototype prim paths of a config, in its iteration order.\<close>

definition prototype_paths :: "string \<Rightarrow> 'f markers_cfg \<Rightarrow> string list" where
  "prototype_paths path markers_cfg = map (\<lambda>(name, c). path @ ''/'' @ name) markers_cfg"

section \<open>A concrete marker group\<close>

text \<open>
  The two-sphere configuration of the class docstring, and the object its
  construction gives when the requested path is free.
\<close>

definition example_cfg :: "py_float markers_cfg" where
  "example_cfg =
     [(''marker1'', MarkerCfg \<lparr>visible = True, prim_type = ''Sphere'', scale = None,
         color = Some [Finite 1, Finite 0, Finite 0],
         attributes = Some [(''radius'', Finite 1)]\<rparr>),
      (''marker2'', MarkerCfg \<lparr>visible = True, prim_type = ''Sphere'', scale = None,
         color = Some [Finite 0, Finite 1, Finite 0],
         attributes = Some [(''radius'', Finite 1)]\<rparr>)]"

definition example_instancer :: "py_float instancer" where
  "example_instancer =
     \<lparr>visibility = Inherited,
      prototypes = [''/World/Visuals/testMarkers/marker1'',
                    ''/World/Visuals/testMarkers/marker2''],
      positions_attr = Some \<lparr>shape = [1, 3], data = [0, 0, 0]\<rparr>,
      orientations_attr = None,
      scales_attr = None,
      proto_indices_attr = Some \<lparr>shape = [1], data = [0]\<rparr>,
      children =
        [\<lparr>prim_path_of = ''/World/Visuals/testMarkers/marker1'', prim_type_of = ''Sphere'',
          usd_path_of = None, scale_of = None,
          attributes_of = Some [(''radius'', Finite 1)],
          invisible_to_secondary_rays = True, prim_visible = True,
          material_color = Some [Finite 1, Finite 0, Finite 0]\<rparr>,
         \<lparr>prim_path_of = ''/World/Visuals/testMarkers/marker2'', prim_type_of = ''Sphere'',
          usd_path_of = None, scale_of = None,
          attributes_of = Some [(''radius'', Finite 1)],
          invisible_to_secondary_rays = True, prim_visible = True,
          material_color = Some [Finite 0, Finite 1, Finite 0]\<rparr>],
      writes = [ProtoIndices, Positions]\<rparr>"

definition example_markers :: "py_float markers" where
  "example_markers =
     \<lparr>prim_path = ''/World/Visuals/testMarkers'', cfg = example_cfg,
      instancer_manager = example_instancer, count = 1\<rparr>"

text \<open>The same group after a call with an empty index array: no instance is left.\<close>

definition emptied_markers :: "py_float markers" where
  "emptied_markers =
     example_markers
       \<lparr>instancer_manager := set_proto_indices \<lparr>shape = [0], data = []\<rparr> example_instancer,
        count := 0\<rparr>"

text \<open>
  Two one-entry configs: a non-file marker of kind \<open>Xform\<close>, and a file marker of
  kind \<open>Sphere\<close> whose file is meant not to exist.
\<close>

definition xform_cfg :: "py_float markers_cfg" where
  "xform_cfg =
     [(''frame'', MarkerCfg \<lparr>visible = True, prim_type = ''Xform'', scale = None,
         color = None, attributes = None\<rparr>)]"

definition missing_file_cfg :: "py_float markers_cfg" where
  "missing_file_cfg =
     [(''frame'', FileMarkerCfg \<lparr>visible = True, prim_type = ''Sphere'', scale = None,
         color = None, attributes = None\<rparr> ''/missing.usd'')]"

section \<open>The conversions at the values used below\<close>

lemma halvings_numeral:
  "halvings (numeral k) a = (if a < 2 then 0 else Suc (halvings (pred_numeral k) (a / 2)))"
  by (simp add: numeral_eq_Suc)

lemma round_ieee_zero: "round_ieee p emax emin 0 = Finite 0"
  using zero_less_power [of "2 :: real" emax]
  by (simp add: round_ieee_def round_even_def Let_def not_le)

lemma round_even_numeral: "round_even (numeral k) = numeral k"
proof -
  have "round_even (of_int (numeral k)) = numeral k"
    by (simp only: round_even_def Let_def floor_of_int) simp
  then show ?thesis by simp
qed

lemma round_even_tie: "round_even (2049 / 2) = 1024"
  by (simp add: round_even_def Let_def)

lemma ulp_float32:
  "ulp 24 127 126 1 = 1 / 8388608" "ulp 24 127 126 2 = 1 / 4194304"
  "ulp 24 127 126 3 = 1 / 4194304" "ulp 24 127 126 4 = 1 / 2097152"
  "ulp 24 127 126 5 = 1 / 2097152" "ulp 24 127 126 6 = 1 / 2097152"
  by (simp_all add: ulp_def Let_def halvings_numeral)

lemma ulp_float16:
  "ulp 11 15 14 1 = 1 / 1024" "ulp 11 15 14 2049 = 2"
  by (simp_all add: ulp_def Let_def halvings_numeral)

lemma to_float32_values:
  "round_ieee 24 127 126 1 = Finite 1" "round_ieee 24 127 126 2 = Finite 2"
  "round_ieee 24 127 126 3 = Finite 3" "round_ieee 24 127 126 4 = Finite 4"
  "round_ieee 24 127 126 5 = Finite 5" "round_ieee 24 127 126 6 = Finite 6"
  by (simp_all add: round_ieee_def Let_def ulp_float32 round_even_numeral)

lemma to_float16_values:
  "round_ieee 11 15 14 1 = Finite 1" "round_ieee 11 15 14 2049 = Finite 2048"
  by (simp_all add: round_ieee_def Let_def ulp_float16 round_even_numeral round_even_tie)

lemma to_int32_fits: "fits_int32 i \<Longrightarrow> to_int32 i = i"
  by (simp add: fits_int32_def to_int32_def)

lemma IntArray_FromNumpy_fits: "all_fit_int32 a \<Longrightarrow> IntArray_FromNumpy a = a"
  by (simp add: all_fit_int32_def IntArray_FromNumpy_def astype_def list_all_iff to_int32_fits
      map_idI)

lemma IntArray_FromNumpy_empty: "data a = [] \<Longrightarrow> IntArray_FromNumpy a = a"
  by (simp add: IntArray_FromNumpy_fits all_fit_int32_def)

lemma IntArray_FromNumpy_shape: "shape (IntArray_FromNumpy a) = shape a"
  by (simp add: IntArray_FromNumpy_def astype_def)

section \<open>The blocks of \<open>visualize\<close>, one at a time\<close>

lemma init_example:
  "init (\<lambda>p. p) (\<lambda>p. False) ''/World/Visuals/testMarkers'' example_cfg = Inr example_markers"
  by (simp add: init_def example_cfg_def example_markers_def example_instancer_def
      define_prim_def create_marker_prim_def set_proto_indices_def set_positions_def Let_def)

lemma example_visible: "is_visible example_markers"
  by (simp add: is_visible_def example_markers_def example_instancer_def)

lemma example_fields:
  "instancer_manager example_markers = example_instancer" "count example_markers = 1"
  by (simp_all add: example_markers_def)

lemma visualize_translations_valid:
  "rank2_width 3 (to_numpy t) \<Longrightarrow>
   visualize_translations Vt (Some t) self n =
     Inr (write_attr (set_positions (Vec3fArray_FromNumpy Vt (to_numpy t))) self,
          leading_dim (to_numpy t))"
  by (cases "shape (to_numpy t)")
    (simp_all add: visualize_translations_def rank2_width_def tuple_getitem_def leading_dim_def
      Let_def)

lemma visualize_translations_low_rank:
  "length (shape (to_numpy t)) < 2 \<Longrightarrow>
   visualize_translations Vt (Some t) self n =
     Inl (IndexError ''tuple index out of range'', self)"
  by (simp add: visualize_translations_def tuple_getitem_def Let_def)

lemma visualize_translations_bad:
  "2 \<le> length (shape (to_numpy t)) \<Longrightarrow> \<not> rank2_width 3 (to_numpy t) \<Longrightarrow>
   visualize_translations Vt (Some t) self n =
     Inl (ValueError (shape_message ''translations'' ''(M, 3)'' (shape (to_numpy t))), self)"
  by (auto simp add: visualize_translations_def tuple_getitem_def Let_def rank2_width_def)

lemma visualize_orientations_valid:
  "rank2_width 4 (to_numpy q) \<Longrightarrow>
   visualize_orientations Vt (Some q) self n =
     Inr (write_attr (set_orientations (QuathArray_FromNumpy Vt (convert_quat (to_numpy q)))) self,
          leading_dim (to_numpy q))"
  by (cases "shape (to_numpy q)")
    (simp_all add: visualize_orientations_def rank2_width_def tuple_getitem_def leading_dim_def
      Let_def convert_quat_def)

lemma visualize_orientations_low_rank:
  "length (shape (to_numpy q)) < 2 \<Longrightarrow>
   visualize_orientations Vt (Some q) self n =
     Inl (IndexError ''tuple index out of range'', self)"
  by (simp add: visualize_orientations_def tuple_getitem_def Let_def)

lemma visualize_orientations_bad:
  "2 \<le> length (shape (to_numpy q)) \<Longrightarrow> \<not> rank2_width 4 (to_numpy q) \<Longrightarrow>
   visualize_orientations Vt (Some q) self n =
     Inl (ValueError (shape_message ''orientations'' ''(M, 4)'' (shape (to_numpy q))), self)"
  by (auto simp add: visualize_orientations_def tuple_getitem_def Let_def rank2_width_def)

lemma visualize_scales_valid:
  "rank2_width 3 (to_numpy c) \<Longrightarrow>
   visualize_scales Vt (Some c) self n =
     Inr (write_attr (set_scales (Vec3fArray_FromNumpy Vt (to_numpy c))) self,
          leading_dim (to_numpy c))"
  by (cases "shape (to_numpy c)")
    (simp_all add: visualize_scales_def rank2_width_def tuple_getitem_def leading_dim_def
      Let_def)

lemma visualize_scales_low_rank:
  "length (shape (to_numpy c)) < 2 \<Longrightarrow>
   visualize_scales Vt (Some c) self n = Inl (IndexError ''tuple index out of range'', self)"
  by (simp add: visualize_scales_def tuple_getitem_def Let_def)

lemma visualize_scales_bad:
  "2 \<le> length (shape (to_numpy c)) \<Longrightarrow> \<not> rank2_width 3 (to_numpy c) \<Longrightarrow>
   visualize_scales Vt (Some c) self n =
     Inl (ValueError (shape_message ''scales'' ''(M, 3)'' (shape (to_numpy c))), self)"
  by (auto simp add: visualize_scales_def tuple_getitem_def Let_def rank2_width_def)

lemma visualize_status_indices:
  "rank1 (indices_to_numpy m) \<Longrightarrow>
   visualize_status (Some m) self n =
     Inr (write_attr (set_proto_indices (IntArray_FromNumpy (indices_to_numpy m))) self,
          leading_dim (indices_to_numpy m))"
  by (cases "shape (indices_to_numpy m)")
    (simp_all add: visualize_status_def rank1_def tuple_getitem_def leading_dim_def Let_def)

lemma visualize_status_indices_bad:
  "\<not> rank1 (indices_to_numpy m) \<Longrightarrow>
   visualize_status (Some m) self n =
     Inl (ValueError (shape_message ''marker_indices'' ''(M,)'' (shape (indices_to_numpy m))),
          self)"
  by (simp add: visualize_status_def rank1_def Let_def)

lemma visualize_status_same:
  "n = count self \<Longrightarrow> visualize_status None self n = Inr (self, n)"
  by (simp add: visualize_status_def)

lemma visualize_status_zero:
  "count self \<noteq> 0 \<Longrightarrow>
   visualize_status None self 0 =
     Inl (ValueError
       ''Number of markers cannot be zero! Hint: The function was called with no inputs?'',
       self)"
  by (simp add: visualize_status_def)

lemma visualize_status_changed:
  "n \<noteq> count self \<Longrightarrow> n \<noteq> 0 \<Longrightarrow>
   visualize_status None self n =
     Inr (write_attr (set_proto_indices \<lparr>shape = [n], data = replicate n 0\<rparr>) self, n)"
  by (simp add: visualize_status_def)

lemma visualize_all_none_count_nonzero:
  "is_visible self \<Longrightarrow> count self \<noteq> 0 \<Longrightarrow>
   visualize Vt self None None None None =
     Inl (ValueError
       ''Number of markers cannot be zero! Hint: The function was called with no inputs?'',
       self)"
  by (simp add: visualize_def visualize_translations_def visualize_orientations_def
      visualize_scales_def visualize_status_zero)

lemma emptied_reachable:
  "visualize pxr_Vt example_markers None None None
     (Some (IndexArray (NumpyArray \<lparr>shape = [0], data = []\<rparr>))) = Inr emptied_markers"
  by (simp add: visualize_def example_visible visualize_translations_def
      visualize_orientations_def visualize_scales_def visualize_status_indices rank1_def
      leading_dim_def write_attr_def emptied_markers_def example_fields
      IntArray_FromNumpy_empty)

lemma emptied_visible: "is_visible emptied_markers"
  by (simp add: is_visible_def emptied_markers_def example_markers_def example_instancer_def
      set_proto_indices_def)

text \<open>
  An index outside the 32-bit range is not stored as it is: \<open>2 ^ 31\<close> comes out
  as \<open>- 2 ^ 31\<close>.
\<close>

lemma visualize_index_wraps:
  "visualize pxr_Vt example_markers None None None (Some (IndexList [2147483648]))
     = Inr (example_markers
         \<lparr>instancer_manager :=
            set_proto_indices \<lparr>shape = [1], data = [- 2147483648]\<rparr> example_instancer,
          count := 1\<rparr>)"
  by (simp add: visualize_def example_visible visualize_translations_def
      visualize_orientations_def visualize_scales_def visualize_status_indices rank1_def
      leading_dim_def write_attr_def example_fields np_array_def IntArray_FromNumpy_def
      astype_def to_int32_def)

subsection \<open>Well-shaped arrays reach the status block\<close>

lemma visualize_reaches_status:
  assumes "is_visible self" and "arrays_valid translations orientations scales"
  shows "visualize Vt self translations orientations scales marker_indices =
     (case visualize_status marker_indices
             (arrays_written Vt translations orientations scales self)
             (implied_count translations orientations scales) of
        Inl x \<Rightarrow> Inl x
      | Inr (self', n) \<Rightarrow> Inr (self'\<lparr>count := n\<rparr>))"
  using assms
  by (cases "translations"; cases "orientations"; cases "scales")
    (simp_all add: visualize_def arrays_valid_def arrays_written_def implied_count_def
      visualize_translations_valid visualize_orientations_valid visualize_scales_valid
      visualize_translations_def [of _ None] visualize_orientations_def [of _ None]
      visualize_scales_def [of _ None])

lemma arrays_written_count:
  "count (arrays_written Vt translations orientations scales self) = count self"
  by (simp add: arrays_written_def write_attr_def Let_def split: option.splits)

lemma arrays_written_proto:
  "proto_indices_attr
     (instancer_manager (arrays_written Vt translations orientations scales self))
     = proto_indices_attr (instancer_manager self)"
  by (simp add: arrays_written_def write_attr_def Let_def set_positions_def
      set_orientations_def set_scales_def split: option.splits)

lemma arrays_written_writes:
  "\<exists>w. writes (instancer_manager (arrays_written Vt translations orientations scales self))
         = writes (instancer_manager self) @ w \<and> ProtoIndices \<notin> set w"
  by (simp add: arrays_written_def write_attr_def Let_def set_positions_def
      set_orientations_def set_scales_def split: option.splits)

subsection \<open>The four outcomes of the status block\<close>

lemma new_writes_written:
  "writes (instancer_manager self') = writes (instancer_manager self) @ w \<Longrightarrow>
   new_writes self self' = w"
  by (simp add: new_writes_def)

lemma status_given:
  assumes "is_visible self" and "arrays_valid translations orientations scales"
    and "rank1 (indices_to_numpy m)"
  shows "\<exists>self'. visualize Vt self translations orientations scales (Some m) = Inr self'
     \<and> proto_indices_attr (instancer_manager self')
         = Some (IntArray_FromNumpy (indices_to_numpy m))
     \<and> count self' = leading_dim (indices_to_numpy m)
     \<and> ProtoIndices \<in> set (new_writes self self')"
proof -
  obtain w where w:
    "writes (instancer_manager (arrays_written Vt translations orientations scales self))
       = writes (instancer_manager self) @ w"
    using arrays_written_writes by blast
  let ?s = "(write_attr (set_proto_indices (IntArray_FromNumpy (indices_to_numpy m)))
              (arrays_written Vt translations orientations scales self))
            \<lparr>count := leading_dim (indices_to_numpy m)\<rparr>"
  have "visualize Vt self translations orientations scales (Some m) = Inr ?s"
    using assms by (simp add: visualize_reaches_status visualize_status_indices)
  moreover have "writes (instancer_manager ?s)
      = writes (instancer_manager self) @ (w @ [ProtoIndices])"
    using w by (simp add: write_attr_def set_proto_indices_def)
  then have "ProtoIndices \<in> set (new_writes self ?s)"
    by (simp add: new_writes_written)
  moreover have "proto_indices_attr (instancer_manager ?s)
      = Some (IntArray_FromNumpy (indices_to_numpy m))"
    by (simp add: write_attr_def set_proto_indices_def)
  ultimately show ?thesis by simp
qed

lemma status_changed:
  assumes "is_visible self" and "arrays_valid translations orientations scales"
    and "implied_count translations orientations scales \<noteq> count self"
    and "implied_count translations orientations scales \<noteq> 0"
  shows "\<exists>self'. visualize Vt self translations orientations scales None = Inr self'
     \<and> proto_indices_attr (instancer_manager self') =
         Some \<lparr>shape = [implied_count translations orientations scales],
               data = replicate (implied_count translations orientations scales) 0\<rparr>
     \<and> count self' = implied_count translations orientations scales
     \<and> ProtoIndices \<in> set (new_writes self self')"
proof -
  let ?n = "implied_count translations orientations scales"
  obtain w where w:
    "writes (instancer_manager (arrays_written Vt translations orientations scales self))
       = writes (instancer_manager self) @ w"
    using arrays_written_writes by blast
  let ?s = "(write_attr (set_proto_indices \<lparr>shape = [?n], data = replicate ?n 0\<rparr>)
              (arrays_written Vt translations orientations scales self))\<lparr>count := ?n\<rparr>"
  have "visualize Vt self translations orientations scales None = Inr ?s"
    using assms
    by (simp add: visualize_reaches_status visualize_status_changed arrays_written_count)
  moreover have "writes (instancer_manager ?s)
      = writes (instancer_manager self) @ (w @ [ProtoIndices])"
    using w by (simp add: write_attr_def set_proto_indices_def)
  then have "ProtoIndices \<in> set (new_writes self ?s)"
    by (simp add: new_writes_written)
  moreover have "proto_indices_attr (instancer_manager ?s) =
      Some \<lparr>shape = [?n], data = replicate ?n 0\<rparr>"
    by (simp add: write_attr_def set_proto_indices_def)
  ultimately show ?thesis by simp
qed

lemma status_empty:
  assumes "is_visible self" and "arrays_valid translations orientations scales"
    and "implied_count translations orientations scales \<noteq> count self"
    and "implied_count translations orientations scales = 0"
  shows "\<exists>self'. visualize Vt self translations orientations scales None =
       Inl (ValueError no_markers_message, self')
     \<and> proto_indices_attr (instancer_manager self') = proto_indices_attr (instancer_manager self)
     \<and> count self' = count self
     \<and> ProtoIndices \<notin> set (new_writes self self')"
proof -
  obtain w where w:
    "writes (instancer_manager (arrays_written Vt translations orientations scales self))
       = writes (instancer_manager self) @ w" "ProtoIndices \<notin> set w"
    using arrays_written_writes by blast
  let ?s = "arrays_written Vt translations orientations scales self"
  have "count ?s \<noteq> 0"
    using assms by (simp add: arrays_written_count)
  then have "visualize Vt self translations orientations scales None =
      Inl (ValueError no_markers_message, ?s)"
    using assms
    by (simp add: visualize_reaches_status visualize_status_zero no_markers_message_def)
  moreover have "ProtoIndices \<notin> set (new_writes self ?s)"
    using w by (simp add: new_writes_written)
  ultimately show ?thesis
    by (simp add: arrays_written_count arrays_written_proto)
qed

lemma status_unchanged:
  assumes "is_visible self" and "arrays_valid translations orientations scales"
    and "implied_count translations orientations scales = count self"
  shows "\<exists>self'. visualize Vt self translations orientations scales None = Inr self'
     \<and> proto_indices_attr (instancer_manager self') = proto_indices_attr (instancer_manager self)
     \<and> count self' = count self
     \<and> ProtoIndices \<notin> set (new_writes self self')"
proof -
  obtain w where w:
    "writes (instancer_manager (arrays_written Vt translations orientations scales self))
       = writes (instancer_manager self) @ w" "ProtoIndices \<notin> set w"
    using arrays_written_writes by blast
  let ?a = "arrays_written Vt translations orientations scales self"
  let ?s = "?a\<lparr>count := count self\<rparr>"
  have "visualize Vt self translations orientations scales None = Inr ?s"
    using assms
    by (simp add: visualize_reaches_status visualize_status_same arrays_written_count)
  moreover have "writes (instancer_manager ?s) = writes (instancer_manager self) @ w"
    using w by simp
  then have "ProtoIndices \<notin> set (new_writes self ?s)"
    using w by (simp add: new_writes_written)
  ultimately show ?thesis
    by (simp add: arrays_written_proto)
qed

lemma status_bad:
  assumes "is_visible self" and "arrays_valid translations orientations scales"
    and "\<not> rank1 (indices_to_numpy m)"
  shows "visualize Vt self translations orientations scales (Some m) =
       Inl (ValueError (shape_message ''marker_indices'' ''(M,)'' (shape (indices_to_numpy m))),
            arrays_written Vt translations orientations scales self)"
  using assms by (simp add: visualize_reaches_status visualize_status_indices_bad)

subsection \<open>Orientations: the reordering, and what the later blocks leave of it\<close>

lemma roll_quats_length: "length (roll_quats xs) = length xs"
  by (induction xs rule: roll_quats.induct) simp_all

lemma roll_quats_nth:
  "length xs = 4 * m \<Longrightarrow> i < m \<Longrightarrow>
   roll_quats xs ! (4 * i) = xs ! (4 * i + 1)
   \<and> roll_quats xs ! (4 * i + 1) = xs ! (4 * i + 2)
   \<and> roll_quats xs ! (4 * i + 2) = xs ! (4 * i + 3)
   \<and> roll_quats xs ! (4 * i + 3) = xs ! (4 * i)"
proof (induction m arbitrary: xs i)
  case 0
  then show ?case by simp
next
  case (Suc m)
  then obtain w x y z rest where xs: "xs = w # x # y # z # rest"
    by (cases xs rule: roll_quats.cases) auto
  with Suc.prems have len: "length rest = 4 * m" by simp
  show ?case
  proof (cases i)
    case 0
    then show ?thesis by (simp add: xs)
  next
    case (Suc j)
    with Suc.prems have "j < m" by simp
    from Suc.IH [OF len this] show ?thesis
      by (simp add: xs Suc add.commute)
  qed
qed

lemma convert_quat_xyzw:
  assumes "length (data q) = 4 * leading_dim q"
  shows "xyzw_of_wxyz q (convert_quat q)"
  using assms roll_quats_nth [of "data q" "leading_dim q"]
  by (simp add: xyzw_of_wxyz_def convert_quat_def roll_quats_length list_all_iff)

lemma scales_keeps_orientations:
  "orientations_attr (instancer_manager (step_state (visualize_scales Vt c self n)))
     = orientations_attr (instancer_manager self)"
  by (simp add: visualize_scales_def Let_def write_attr_def set_scales_def
      split: option.splits sum.splits)

lemma status_keeps_orientations:
  "orientations_attr (instancer_manager (step_state (visualize_status m self n)))
     = orientations_attr (instancer_manager self)"
  by (simp add: visualize_status_def Let_def write_attr_def set_proto_indices_def
      split: option.splits sum.splits)

lemma orientations_survive:
  "orientations_attr (instancer_manager (state_after
      (case visualize_scales Vt c self n of
         Inl x \<Rightarrow> Inl x
       | Inr (s3, n3) \<Rightarrow>
           (case visualize_status m s3 n3 of
              Inl x \<Rightarrow> Inl x
            | Inr (s4, n4) \<Rightarrow> Inr (s4\<lparr>count := n4\<rparr>)))))
   = orientations_attr (instancer_manager self)"
proof (cases "visualize_scales Vt c self n")
  case (Inl x)
  with scales_keeps_orientations [of Vt c self n] show ?thesis
    by (cases x) simp
next
  case (Inr y)
  obtain s3 n3 where y: "y = (s3, n3)" by (cases y)
  with Inr scales_keeps_orientations [of Vt c self n]
  have k: "orientations_attr (instancer_manager s3) = orientations_attr (instancer_manager self)"
    by simp
  show ?thesis
  proof (cases "visualize_status m s3 n3")
    case (Inl x)
    with status_keeps_orientations [of m s3 n3] k Inr y show ?thesis
      by (cases x) simp
  next
    case r: (Inr z)
    with status_keeps_orientations [of m s3 n3] k Inr y show ?thesis
      by (cases z) simp
  qed
qed

lemma orientations_written:
  assumes "is_visible self"
    and "case translations of None \<Rightarrow> True | Some t \<Rightarrow> rank2_width 3 (to_numpy t)"
    and "rank2_width 4 (to_numpy q)"
  shows "orientations_attr (instancer_manager (state_after
            (visualize Vt self translations (Some q) scales marker_indices)))
           = Some (QuathArray_FromNumpy Vt (convert_quat (to_numpy q)))"
proof (cases "translations")
  case None
  with assms show ?thesis
    by (simp add: visualize_def visualize_translations_def visualize_orientations_valid
        orientations_survive write_attr_def set_orientations_def)
next
  case (Some t)
  with assms show ?thesis
    by (simp add: visualize_def visualize_translations_valid visualize_orientations_valid
        orientations_survive write_attr_def set_orientations_def)
qed

subsection \<open>The prototype loop\<close>

lemma resolve_ok:
  "entry_ok chk c \<Longrightarrow> \<exists>u. resolve_usd_path chk c = Inr u"
  by (cases c) simp_all

lemma add_markers_prototypes_ok:
  "entries_ok chk markers_cfg \<Longrightarrow>
   \<exists>h'. add_markers_prototypes chk path markers_cfg h = Inr h'
     \<and> prototypes h' = prototypes h @ prototype_paths path markers_cfg"
proof (induction markers_cfg arbitrary: h)
  case Nil
  then show ?case by (simp add: prototype_paths_def)
next
  case (Cons e rest)
  obtain name c where e: "e = (name, c)" by (cases e)
  from Cons.prems e have ok: "entry_ok chk c" and rest: "entries_ok chk rest"
    by (simp_all add: entries_ok_def)
  from resolve_ok [OF ok] obtain u where u: "resolve_usd_path chk c = Inr u" by blast
  from Cons.IH [OF rest, of "create_marker_prim path name c u h"]
  show ?case
    by (auto simp add: e u prototype_paths_def create_marker_prim_def Let_def)
qed

lemma add_markers_prototypes_fail:
  "entries_ok chk pre \<Longrightarrow> resolve_usd_path chk c = Inl e \<Longrightarrow>
   add_markers_prototypes chk path (pre @ (name, c) # post) h = Inl e"
proof (induction pre arbitrary: h)
  case Nil
  then show ?case by simp
next
  case (Cons x pre)
  obtain n d where x: "x = (n, d)" by (cases x)
  from Cons.prems x have ok: "entry_ok chk d" and rest: "entries_ok chk pre"
    by (simp_all add: entries_ok_def)
  from resolve_ok [OF ok] obtain u where u: "resolve_usd_path chk d = Inr u" by blast
  from Cons.IH [OF rest Cons.prems(2)] show ?case
    by (simp add: x u)
qed

lemma init_fail:
  "entries_ok chk pre \<Longrightarrow> resolve_usd_path chk c = Inl e \<Longrightarrow>
   init g chk p (pre @ (name, c) # post) = Inl e"
  by (simp add: init_def add_markers_prototypes_fail)


section \<open>Claims\<close>

text \<open>
  C4.  While the instancer is invisible, \<open>visualize\<close> returns at once for any
  arguments, malformed or all null: nothing is raised, and the object comes back
  as it was, with its \<open>count\<close>, its four arrays and its list of writes.
\<close>

theorem visualize_invisible_noop:
  "\<not> is_visible self \<Longrightarrow>
   visualize Vt self translations orientations scales marker_indices = Inr self"
  by (simp add: visualize_def)

theorem visualize_invisible_noop_witness:
  "\<not> is_visible (set_visibility example_markers False)
   \<and> visualize pxr_Vt (set_visibility example_markers False)
       (Some (NumpyArray \<lparr>shape = [2], data = [Finite 1, Finite 2]\<rparr>)) None None None
     = Inr (set_visibility example_markers False)"
  using visualize_invisible_noop [of "set_visibility example_markers False" pxr_Vt
      "Some (NumpyArray \<lparr>shape = [2], data = [Finite 1, Finite 2]\<rparr>)" None None None]
  by (simp add: is_visible_def set_visibility_def)

text \<open>
  C10.  On a visible group, \<open>visualize\<close> with a \<open>marker_indices\<close> of shape
  \<open>(0,)\<close> (array, tensor or empty list) and nothing else returns normally: the
  array goes through the conversion to a 32-bit integer array and is written as
  the prototype indices, and \<open>count\<close> becomes 0.  Having no element, the array
  is written as it is.
\<close>

theorem visualize_empty_indices:
  "is_visible self \<Longrightarrow> shape (indices_to_numpy m) = [0] \<Longrightarrow>
   visualize Vt self None None None (Some m)
     = Inr (self\<lparr>instancer_manager :=
              set_proto_indices (IntArray_FromNumpy (indices_to_numpy m))
                (instancer_manager self),
              count := 0\<rparr>)
   \<and> (data (indices_to_numpy m) = [] \<longrightarrow>
        visualize Vt self None None None (Some m)
          = Inr (self\<lparr>instancer_manager :=
                   set_proto_indices (indices_to_numpy m) (instancer_manager self),
                   count := 0\<rparr>))"
  by (simp add: visualize_def visualize_translations_def visualize_orientations_def
      visualize_scales_def visualize_status_indices rank1_def leading_dim_def write_attr_def
      IntArray_FromNumpy_empty)

theorem visualize_empty_indices_witness:
  "is_visible example_markers
   \<and> shape (indices_to_numpy (IndexArray (NumpyArray \<lparr>shape = [0], data = []\<rparr>))) = [0]
   \<and> data (indices_to_numpy (IndexArray (NumpyArray \<lparr>shape = [0], data = []\<rparr>))) = []
   \<and> visualize pxr_Vt example_markers None None None
       (Some (IndexArray (NumpyArray \<lparr>shape = [0], data = []\<rparr>)))
     = Inr emptied_markers
   \<and> count emptied_markers = 0
   \<and> proto_indices_attr (instancer_manager emptied_markers) = Some \<lparr>shape = [0], data = []\<rparr>"
  using visualize_empty_indices [where self = example_markers and Vt = pxr_Vt
      and m = "IndexArray (NumpyArray \<lparr>shape = [0], data = []\<rparr>)"]
  by (simp add: example_visible emptied_markers_def example_fields set_proto_indices_def
      IntArray_FromNumpy_empty)

text \<open>
  C9.  \<open>visualize\<close> is not atomic.  Given a well-shaped \<open>translations\<close> and an
  \<open>orientations\<close> array of rank 2 or more with the wrong shape, the call raises
  the \<open>ValueError\<close> for \<open>orientations\<close> after the positions have been written:
  the positions hold the new array, as the host converts it, while orientations,
  scales, prototype indices and \<open>count\<close> are as before.
\<close>

theorem visualize_not_atomic:
  assumes "is_visible self" and "rank2_width 3 (to_numpy t)"
    and "2 \<le> length (shape (to_numpy q))" and "\<not> rank2_width 4 (to_numpy q)"
  shows "\<exists>self'. visualize Vt self (Some t) (Some q) scales marker_indices =
           Inl (ValueError (shape_message ''orientations'' ''(M, 4)'' (shape (to_numpy q))), self')
         \<and> positions_attr (instancer_manager self')
             = Some (Vec3fArray_FromNumpy Vt (to_numpy t))
         \<and> orientations_attr (instancer_manager self') = orientations_attr (instancer_manager self)
         \<and> scales_attr (instancer_manager self') = scales_attr (instancer_manager self)
         \<and> proto_indices_attr (instancer_manager self') = proto_indices_attr (instancer_manager self)
         \<and> count self' = count self"
  using assms
  by (simp add: visualize_def visualize_translations_valid visualize_orientations_bad
      write_attr_def set_positions_def)

theorem visualize_not_atomic_witness:
  "is_visible example_markers
   \<and> rank2_width 3 \<lparr>shape = [2, 3],
        data = [Finite 1, Finite 2, Finite 3, Finite 4, Finite 5, Finite 6]\<rparr>
   \<and> \<not> rank2_width 4 \<lparr>shape = [4, 3], data = replicate 12 (Finite 0)\<rparr>
   \<and> (\<exists>self'. visualize pxr_Vt example_markers
          (Some (NumpyArray \<lparr>shape = [2, 3],
             data = [Finite 1, Finite 2, Finite 3, Finite 4, Finite 5, Finite 6]\<rparr>))
          (Some (NumpyArray \<lparr>shape = [4, 3], data = replicate 12 (Finite 0)\<rparr>)) None None =
          Inl (ValueError ''Expected `orientations` to have shape (M, 4). Received: (4, 3).'',
               self')
        \<and> positions_attr (instancer_manager self')
            = Some \<lparr>shape = [2, 3],
                data = [Finite 1, Finite 2, Finite 3, Finite 4, Finite 5, Finite 6]\<rparr>
        \<and> orientations_attr (instancer_manager self') = None
        \<and> scales_attr (instancer_manager self') = None
        \<and> proto_indices_attr (instancer_manager self') = Some \<lparr>shape = [1], data = [0]\<rparr>
        \<and> count self' = 1)"
  using visualize_not_atomic [where self = example_markers and Vt = pxr_Vt
      and t = "NumpyArray \<lparr>shape = [2, 3],
             data = [Finite 1, Finite 2, Finite 3, Finite 4, Finite 5, Finite 6]\<rparr>"
      and q = "NumpyArray \<lparr>shape = [4, 3], data = replicate 12 (Finite 0)\<rparr>"
      and scales = None and marker_indices = None]
  by (simp add: example_visible rank2_width_def example_fields example_instancer_def
      shape_message_def str_tuple_def str_nat.simps digit_char_def pxr_Vt_def astype_def
      to_float32_values)

text \<open>
  C3.  Each provided array is checked on its own and a shape violation is to
  raise the \<open>ValueError\<close> that names the argument.  For \<open>translations\<close> of rank
  below 2 the code does not get that far: \<open>shape[1]\<close> is read before the rank
  is looked at, so the call ends in an \<open>IndexError\<close>, with nothing written.
\<close>

theorem visualize_low_rank_translations:
  "is_visible self \<Longrightarrow> length (shape (to_numpy t)) < 2 \<Longrightarrow>
   visualize Vt self (Some t) orientations scales marker_indices =
     Inl (IndexError ''tuple index out of range'', self)"
  by (simp add: visualize_def visualize_translations_low_rank)

theorem visualize_low_rank_translations_witness:
  "is_visible example_markers
   \<and> length (shape (to_numpy
        (NumpyArray \<lparr>shape = [3], data = [Finite 0, Finite 0, Finite 0]\<rparr>))) < 2
   \<and> visualize pxr_Vt example_markers
        (Some (NumpyArray \<lparr>shape = [3], data = [Finite 0, Finite 0, Finite 0]\<rparr>))
        None None None
      = Inl (IndexError ''tuple index out of range'', example_markers)"
  using visualize_low_rank_translations [where self = example_markers and Vt = pxr_Vt
      and t = "NumpyArray \<lparr>shape = [3], data = [Finite 0, Finite 0, Finite 0]\<rparr>"
      and orientations = None and scales = None and marker_indices = None]
  by (simp add: example_visible)

text \<open>
  C6.  A call with all four arguments null is to raise.  On a visible group whose
  \<open>count\<close> is 0 it does not: the zero count compares equal to the recorded one,
  the check is skipped, and the call returns normally with the object unchanged.
\<close>

theorem visualize_all_none_count_zero:
  "is_visible self \<Longrightarrow> count self = 0 \<Longrightarrow> visualize Vt self None None None None = Inr self"
  by (simp add: visualize_def visualize_translations_def visualize_orientations_def
      visualize_scales_def visualize_status_same)

theorem visualize_all_none_count_zero_witness:
  "is_visible emptied_markers \<and> count emptied_markers = 0
   \<and> visualize pxr_Vt emptied_markers None None None None = Inr emptied_markers"
proof -
  have c: "count emptied_markers = 0"
    by (simp add: emptied_markers_def)
  show ?thesis
    using visualize_all_none_count_zero [OF emptied_visible c, of pxr_Vt] emptied_visible c
    by simp
qed

text \<open>
  C1, amended.  On a visible group, with at least one argument non-null and every
  provided array passing its shape validation, the call returns and \<open>count\<close> is
  the leading dimension \<open>M\<close> of the last non-null argument (translations,
  orientations, scales, marker indices, in that order), except when
  \<open>marker_indices\<close> is null and \<open>M\<close> is 0 while the recorded count is not: then
  the call raises the zero-count \<open>ValueError\<close> and \<open>count\<close> stays as it was.
\<close>

theorem visualize_count_last_wins:
  assumes "is_visible self"
    and "translations \<noteq> None \<or> orientations \<noteq> None \<or> scales \<noteq> None \<or> marker_indices \<noteq> None"
    and "arrays_valid translations orientations scales"
    and "indices_valid marker_indices"
  shows "(if marker_indices = None
             \<and> last_leading_dim translations orientations scales marker_indices = 0
             \<and> count self \<noteq> 0
          then \<exists>self'. visualize Vt self translations orientations scales marker_indices =
                   Inl (ValueError no_markers_message, self')
                 \<and> count self' = count self
          else \<exists>self'. visualize Vt self translations orientations scales marker_indices
                   = Inr self'
                 \<and> count self' =
                     last_leading_dim translations orientations scales marker_indices)"
proof (cases marker_indices)
  case (Some m)
  then have "rank1 (indices_to_numpy m)"
    using assms(4) by (simp add: indices_valid_def)
  from status_given [OF assms(1) assms(3) this, of Vt] Some show ?thesis
    by (auto simp add: last_leading_dim_def)
next
  case None
  let ?n = "implied_count translations orientations scales"
  have M: "last_leading_dim translations orientations scales marker_indices = ?n"
    using None by (simp add: last_leading_dim_def)
  show ?thesis
  proof (cases "?n = count self")
    case True
    from status_unchanged [OF assms(1) assms(3) True, of Vt] None M True show ?thesis
      by auto
  next
    case False
    show ?thesis
    proof (cases "?n = 0")
      case True
      from status_empty [OF assms(1) assms(3) False True, of Vt] None M True False
      show ?thesis
        by auto
    next
      case nz: False
      from status_changed [OF assms(1) assms(3) False nz, of Vt] None M nz show ?thesis
        by auto
    qed
  qed
qed

theorem visualize_count_last_wins_witness:
  "is_visible example_markers
   \<and> arrays_valid (Some (TorchTensor \<lparr>shape = [5, 3], data = replicate 15 (Finite 0)\<rparr>))
        None None
   \<and> indices_valid None
   \<and> (\<exists>self'. visualize pxr_Vt example_markers
          (Some (TorchTensor \<lparr>shape = [5, 3], data = replicate 15 (Finite 0)\<rparr>))
          None None None
          = Inr self'
        \<and> count self' = 5)"
proof -
  let ?t = "TorchTensor \<lparr>shape = [5, 3], data = replicate 15 (Finite 0)\<rparr>"
  have v: "arrays_valid (Some ?t) None None"
    by (simp add: arrays_valid_def rank2_width_def)
  have i: "indices_valid None"
    by (simp add: indices_valid_def)
  have n: "last_leading_dim (Some ?t) None None None = 5"
    by (simp add: last_leading_dim_def implied_count_def leading_dim_def)
  show ?thesis
    using visualize_count_last_wins [OF example_visible _ v i, of pxr_Vt] v i n
    by (simp add: example_visible)
qed

text \<open>
  C1 as stated fails: a \<open>(0, 3)\<close> translations array passes the shape validation,
  its leading dimension is 0, and the call raises with \<open>count\<close> still 1.
\<close>

theorem visualize_zero_rows_counterexample:
  "is_visible example_markers
   \<and> arrays_valid (Some (NumpyArray \<lparr>shape = [0, 3], data = ([] :: py_float list)\<rparr>))
        None None
   \<and> indices_valid None
   \<and> last_leading_dim (Some (NumpyArray \<lparr>shape = [0, 3], data = ([] :: py_float list)\<rparr>))
        None None None = 0
   \<and> visualize pxr_Vt example_markers (Some (NumpyArray \<lparr>shape = [0, 3], data = []\<rparr>))
        None None None
      = Inl (ValueError no_markers_message,
             write_attr (set_positions \<lparr>shape = [0, 3], data = []\<rparr>) example_markers)
   \<and> count (write_attr (set_positions \<lparr>shape = [0, 3], data = []\<rparr>) example_markers) = 1"
  by (simp add: example_visible arrays_valid_def indices_valid_def rank2_width_def
      last_leading_dim_def implied_count_def leading_dim_def visualize_def
      visualize_translations_valid visualize_orientations_def visualize_scales_def
      visualize_status_zero example_fields no_markers_message_def write_attr_def
      pxr_Vt_def astype_def)

text \<open>
  C2, amended.  On a visible group, when the provided translations, orientations
  and scales pass their shape validation: a provided rank-1 \<open>marker_indices\<close> is
  written through the conversion to a 32-bit integer array, hence as it is when
  every index fits in 32 bits, and its length is the new count (one of another
  rank raises the \<open>ValueError\<close> naming it); without \<open>marker_indices\<close>, an
  implied count equal to the recorded one leaves the prototype indices unwritten,
  an implied count of 0 that differs from it raises the zero-count
  \<open>ValueError\<close>, and any other implied count has the all-zero index array of
  that length written.
\<close>

theorem visualize_prototype_indices:
  assumes "is_visible self" and "arrays_valid translations orientations scales"
  shows "(case marker_indices of
            Some m \<Rightarrow>
              if rank1 (indices_to_numpy m)
              then \<exists>self'. visualize Vt self translations orientations scales marker_indices
                       = Inr self'
                     \<and> proto_indices_attr (instancer_manager self')
                         = Some (IntArray_FromNumpy (indices_to_numpy m))
                     \<and> (all_fit_int32 (indices_to_numpy m) \<longrightarrow>
                          proto_indices_attr (instancer_manager self')
                            = Some (indices_to_numpy m))
                     \<and> count self' = leading_dim (indices_to_numpy m)
                     \<and> ProtoIndices \<in> set (new_writes self self')
              else \<exists>self'. visualize Vt self translations orientations scales marker_indices
                       = Inl (ValueError (shape_message ''marker_indices'' ''(M,)''
                                (shape (indices_to_numpy m))), self')
          | None \<Rightarrow>
              if implied_count translations orientations scales = count self
              then \<exists>self'. visualize Vt self translations orientations scales marker_indices
                       = Inr self'
                     \<and> proto_indices_attr (instancer_manager self')
                         = proto_indices_attr (instancer_manager self)
                     \<and> ProtoIndices \<notin> set (new_writes self self')
              else if implied_count translations orientations scales = 0
              then \<exists>self'. visualize Vt self translations orientations scales marker_indices
                       = Inl (ValueError no_markers_message, self')
                     \<and> proto_indices_attr (instancer_manager self')
                         = proto_indices_attr (instancer_manager self)
                     \<and> ProtoIndices \<notin> set (new_writes self self')
              else \<exists>self'. visualize Vt self translations orientations scales marker_indices
                       = Inr self'
                     \<and> proto_indices_attr (instancer_manager self')
                         = Some \<lparr>shape = [implied_count translations orientations scales],
                                 data = replicate
                                   (implied_count translations orientations scales) 0\<rparr>
                     \<and> count self' = implied_count translations orientations scales
                     \<and> ProtoIndices \<in> set (new_writes self self'))"
proof (cases marker_indices)
  case (Some m)
  show ?thesis
  proof (cases "rank1 (indices_to_numpy m)")
    case True
    from status_given [OF assms True, of Vt] Some True show ?thesis
      by (auto simp add: IntArray_FromNumpy_fits)
  next
    case False
    from status_bad [OF assms False, of Vt] Some False show ?thesis by simp
  qed
next
  case None
  let ?n = "implied_count translations orientations scales"
  show ?thesis
  proof (cases "?n = count self")
    case True
    from status_unchanged [OF assms True, of Vt] None True show ?thesis by auto
  next
    case False
    show ?thesis
    proof (cases "?n = 0")
      case True
      from status_empty [OF assms False True, of Vt] None True False show ?thesis by auto
    next
      case nz: False
      from status_changed [OF assms False nz, of Vt] None nz False show ?thesis by auto
    qed
  qed
qed

theorem visualize_prototype_indices_witness:
  "is_visible example_markers
   \<and> arrays_valid (Some (TorchTensor \<lparr>shape = [4, 3], data = replicate 12 (Finite 0)\<rparr>))
        None None
   \<and> rank1 (indices_to_numpy (IndexList [0, 1, 0, 1]))
   \<and> all_fit_int32 (indices_to_numpy (IndexList [0, 1, 0, 1]))
   \<and> (\<exists>self'. visualize pxr_Vt example_markers
          (Some (TorchTensor \<lparr>shape = [4, 3], data = replicate 12 (Finite 0)\<rparr>)) None None
          (Some (IndexList [0, 1, 0, 1]))
          = Inr self'
        \<and> proto_indices_attr (instancer_manager self')
            = Some \<lparr>shape = [4], data = [0, 1, 0, 1]\<rparr>
        \<and> count self' = 4
        \<and> ProtoIndices \<in> set (new_writes example_markers self'))
   \<and> arrays_valid (Some (NumpyArray \<lparr>shape = [3, 3], data = replicate 9 (Finite 0)\<rparr>))
        None None
   \<and> (\<exists>self'. visualize pxr_Vt example_markers
          (Some (NumpyArray \<lparr>shape = [3, 3], data = replicate 9 (Finite 0)\<rparr>)) None None None
          = Inr self'
        \<and> proto_indices_attr (instancer_manager self') = Some \<lparr>shape = [3], data = [0, 0, 0]\<rparr>
        \<and> count self' = 3
        \<and> ProtoIndices \<in> set (new_writes example_markers self'))"
proof -
  let ?t4 = "TorchTensor \<lparr>shape = [4, 3], data = replicate 12 (Finite 0)\<rparr>"
  let ?t3 = "NumpyArray \<lparr>shape = [3, 3], data = replicate 9 (Finite 0)\<rparr>"
  have v4: "arrays_valid (Some ?t4) None None"
    by (simp add: arrays_valid_def rank2_width_def)
  have v3: "arrays_valid (Some ?t3) None None"
    by (simp add: arrays_valid_def rank2_width_def)
  have r1: "rank1 (indices_to_numpy (IndexList [0, 1, 0, 1]))"
    by (simp add: rank1_def np_array_def)
  have f: "all_fit_int32 (indices_to_numpy (IndexList [0, 1, 0, 1]))"
    by (simp add: all_fit_int32_def fits_int32_def np_array_def)
  have n: "implied_count (Some ?t3) None None = 3"
    by (simp add: implied_count_def leading_dim_def)
  have r: "replicate 3 (0 :: int) = [0, 0, 0]"
    by (simp add: numeral_3_eq_3)
  have a: "\<exists>self'. visualize pxr_Vt example_markers (Some ?t4) None None
          (Some (IndexList [0, 1, 0, 1])) = Inr self'
        \<and> proto_indices_attr (instancer_manager self')
            = Some \<lparr>shape = [4], data = [0, 1, 0, 1]\<rparr>
        \<and> count self' = 4
        \<and> ProtoIndices \<in> set (new_writes example_markers self')"
    using visualize_prototype_indices [OF example_visible v4,
        where marker_indices = "Some (IndexList [0, 1, 0, 1])" and Vt = pxr_Vt] r1 f
    by (auto simp add: np_array_def leading_dim_def eval_nat_numeral)
  have b: "\<exists>self'. visualize pxr_Vt example_markers (Some ?t3) None None None = Inr self'
        \<and> proto_indices_attr (instancer_manager self') = Some \<lparr>shape = [3], data = [0, 0, 0]\<rparr>
        \<and> count self' = 3
        \<and> ProtoIndices \<in> set (new_writes example_markers self')"
    using visualize_prototype_indices [OF example_visible v3,
        where marker_indices = None and Vt = pxr_Vt] n r
    by (simp add: example_fields)
  from a b v4 v3 r1 f show ?thesis
    by (simp add: example_visible)
qed

text \<open>
  C2 as stated fails: with a malformed translations array the call raises before
  the status block, so the provided indices are not written and \<open>count\<close> is
  unchanged.
\<close>

theorem visualize_indices_after_bad_array_counterexample:
  "is_visible example_markers
   \<and> rank1 (indices_to_numpy (IndexList [0, 1]))
   \<and> visualize pxr_Vt example_markers
        (Some (NumpyArray \<lparr>shape = [2, 2],
           data = [Finite 0, Finite 0, Finite 0, Finite 0]\<rparr>)) None None
        (Some (IndexList [0, 1]))
      = Inl (ValueError ''Expected `translations` to have shape (M, 3). Received: (2, 2).'',
             example_markers)
   \<and> proto_indices_attr (instancer_manager example_markers) = Some \<lparr>shape = [1], data = [0]\<rparr>
   \<and> count example_markers = 1"
  by (simp add: example_visible rank1_def np_array_def visualize_def
      visualize_translations_bad rank2_width_def shape_message_def str_tuple_def
      str_nat.simps digit_char_def example_fields example_instancer_def)

text \<open>
  C5, amended.  On a visible group, once the translations block has passed, a
  well-formed \<open>(M, 4)\<close> orientations array given as \<open>(w, x, y, z)\<close> rows is
  reordered row by row to \<open>(x, y, z, w)\<close>, no component changed, and handed to
  the host's conversion to half-precision quaternions; the instancer's
  orientations hold the result after the call, whatever the later blocks do.  They
  are the reordered array itself whenever the conversion keeps it, as it does for
  \<open>(1, 0, 0, 0)\<close>, written as \<open>(0, 0, 0, 1)\<close>.
\<close>

theorem visualize_orientations_xyzw:
  assumes "is_visible self"
    and "case translations of None \<Rightarrow> True | Some t \<Rightarrow> rank2_width 3 (to_numpy t)"
    and "rank2_width 4 (to_numpy q)"
    and "length (data (to_numpy q)) = 4 * leading_dim (to_numpy q)"
  shows "orientations_attr (instancer_manager (state_after
            (visualize Vt self translations (Some q) scales marker_indices)))
           = Some (QuathArray_FromNumpy Vt (convert_quat (to_numpy q)))
         \<and> xyzw_of_wxyz (to_numpy q) (convert_quat (to_numpy q))
         \<and> (QuathArray_FromNumpy Vt (convert_quat (to_numpy q)) = convert_quat (to_numpy q)
              \<longrightarrow> orientations_attr (instancer_manager (state_after
                     (visualize Vt self translations (Some q) scales marker_indices)))
                   = Some (convert_quat (to_numpy q)))"
  using orientations_written [OF assms(1) assms(2) assms(3), of Vt scales marker_indices]
    convert_quat_xyzw [OF assms(4)]
  by simp

theorem visualize_orientations_xyzw_witness:
  "is_visible example_markers
   \<and> rank2_width 4 \<lparr>shape = [1, 4], data = [Finite 1, Finite 0, Finite 0, Finite 0]\<rparr>
   \<and> QuathArray_FromNumpy pxr_Vt
        \<lparr>shape = [1, 4], data = [Finite 0, Finite 0, Finite 0, Finite 1]\<rparr>
      = \<lparr>shape = [1, 4], data = [Finite 0, Finite 0, Finite 0, Finite 1]\<rparr>
   \<and> orientations_attr (instancer_manager (state_after
        (visualize pxr_Vt example_markers None
           (Some (NumpyArray
              \<lparr>shape = [1, 4], data = [Finite 1, Finite 0, Finite 0, Finite 0]\<rparr>))
           None None)))
      = Some \<lparr>shape = [1, 4], data = [Finite 0, Finite 0, Finite 0, Finite 1]\<rparr>
   \<and> xyzw_of_wxyz \<lparr>shape = [1, 4], data = [Finite 1, Finite 0, Finite 0, Finite 0]\<rparr>
        \<lparr>shape = [1, 4], data = [Finite 0, Finite 0, Finite 0, Finite 1]\<rparr>"
  using visualize_orientations_xyzw [of example_markers None
      "NumpyArray \<lparr>shape = [1, 4], data = [Finite 1, Finite 0, Finite 0, Finite 0]\<rparr>"
      pxr_Vt None None]
  by (simp add: example_visible rank2_width_def leading_dim_def convert_quat_def pxr_Vt_def
      astype_def round_ieee_zero to_float16_values)

text \<open>
  C5 as stated fails: the component 2049 has no half-precision value, and what the
  instancer holds for \<open>(2049, 0, 0, 0)\<close> is \<open>(0, 0, 0, 2048)\<close>, which is not the
  reordering of the input.
\<close>

theorem visualize_orientations_rounded_counterexample:
  "is_visible example_markers
   \<and> rank2_width 4 \<lparr>shape = [1, 4], data = [Finite 2049, Finite 0, Finite 0, Finite 0]\<rparr>
   \<and> orientations_attr (instancer_manager (state_after
        (visualize pxr_Vt example_markers None
           (Some (NumpyArray
              \<lparr>shape = [1, 4], data = [Finite 2049, Finite 0, Finite 0, Finite 0]\<rparr>))
           None None)))
      = Some \<lparr>shape = [1, 4], data = [Finite 0, Finite 0, Finite 0, Finite 2048]\<rparr>
   \<and> \<not> xyzw_of_wxyz \<lparr>shape = [1, 4], data = [Finite 2049, Finite 0, Finite 0, Finite 0]\<rparr>
        \<lparr>shape = [1, 4], data = [Finite 0, Finite 0, Finite 0, Finite 2048]\<rparr>"
proof -
  let ?q = "NumpyArray \<lparr>shape = [1, 4], data = [Finite 2049, Finite 0, Finite 0, Finite 0]\<rparr>"
  have r: "rank2_width 4 (to_numpy ?q)"
    by (simp add: rank2_width_def)
  have "orientations_attr (instancer_manager (state_after
        (visualize pxr_Vt example_markers None (Some ?q) None None)))
      = Some \<lparr>shape = [1, 4], data = [Finite 0, Finite 0, Finite 0, Finite 2048]\<rparr>"
    using orientations_written [OF example_visible _ r, of None pxr_Vt None None]
    by (simp add: convert_quat_def pxr_Vt_def astype_def round_ieee_zero to_float16_values)
  moreover have "\<not> xyzw_of_wxyz
      \<lparr>shape = [1, 4], data = [Finite 2049, Finite 0, Finite 0, Finite 0]\<rparr>
      \<lparr>shape = [1, 4], data = [Finite 0, Finite 0, Finite 0, Finite 2048]\<rparr>"
    by (simp add: xyzw_of_wxyz_def leading_dim_def)
  ultimately show ?thesis
    using r by (simp add: example_visible)
qed

text \<open>
  C7, amended.  Construction with an empty config raises the \<open>ValueError\<close> for an
  empty marker set.  For a non-empty config all of whose entries are well-formed
  prototypes, construction succeeds, \<open>num_prototypes\<close> is the number of entries,
  and the prototype targets are the entries' paths in config order, so that the
  prototype index of an entry is its position.
\<close>

theorem init_prototypes:
  "init g chk p [] = Inl (ValueError ''The `cfg.markers` cannot be empty. Received: {}'')
   \<and> (markers_cfg \<noteq> [] \<and> entries_ok chk markers_cfg \<longrightarrow>
        (\<exists>self. init g chk p markers_cfg = Inr self
           \<and> num_prototypes self = length markers_cfg
           \<and> prototypes (instancer_manager self) = prototype_paths (g p) markers_cfg
           \<and> length (prototypes (instancer_manager self)) = length markers_cfg
           \<and> count self = 1))"
proof -
  have "init g chk p [] = Inl (ValueError ''The `cfg.markers` cannot be empty. Received: {}'')"
    by (simp add: init_def)
  moreover have "\<exists>self. init g chk p markers_cfg = Inr self
           \<and> num_prototypes self = length markers_cfg
           \<and> prototypes (instancer_manager self) = prototype_paths (g p) markers_cfg
           \<and> length (prototypes (instancer_manager self)) = length markers_cfg
           \<and> count self = 1"
    if ne: "markers_cfg \<noteq> []" and ok: "entries_ok chk markers_cfg"
  proof -
    from add_markers_prototypes_ok [OF ok, of "g p" define_prim]
    obtain h' where h': "add_markers_prototypes chk (g p) markers_cfg define_prim = Inr h'"
      "prototypes h' = prototype_paths (g p) markers_cfg"
      by (auto simp add: define_prim_def)
    with ne show ?thesis
      by (simp add: init_def num_prototypes_def set_proto_indices_def set_positions_def
          prototype_paths_def)
  qed
  ultimately show ?thesis by blast
qed

theorem init_prototypes_witness:
  "example_cfg \<noteq> [] \<and> entries_ok (\<lambda>p. False) example_cfg
   \<and> init (\<lambda>p. p) (\<lambda>p. False) ''/World/Visuals/testMarkers'' example_cfg = Inr example_markers
   \<and> num_prototypes example_markers = 2
   \<and> prototypes (instancer_manager example_markers)
       = [''/World/Visuals/testMarkers/marker1'', ''/World/Visuals/testMarkers/marker2'']"
  using init_prototypes [of "\<lambda>p. p" "\<lambda>p. False" "''/World/Visuals/testMarkers''" example_cfg]
    init_example
  by (simp add: entries_ok_def example_cfg_def example_fields example_instancer_def
      num_prototypes_def example_markers_def)

text \<open>
  C7 as stated fails: a non-empty config with a non-file \<open>Xform\<close> entry is
  rejected.
\<close>

theorem init_xform_counterexample:
  "xform_cfg \<noteq> []
   \<and> init (\<lambda>p. p) (\<lambda>p. True) ''/World/Visuals/testMarkers'' xform_cfg
       = Inl (ValueError ''Please use `FileMarkerCfg` for `prim_type` of `Xform`.'')"
  by (simp add: xform_cfg_def init_def)

text \<open>
  C8, amended.  Construction fails with the error of the first offending entry in
  config order.  For a non-file entry of kind \<open>Xform\<close> that is a \<open>ValueError\<close>;
  for a file entry it is \<open>FileNotFoundError\<close> when the file does not resolve,
  and a \<open>ValueError\<close> when the file resolves and the kind is not \<open>Xform\<close>.
\<close>

theorem init_first_offender:
  assumes "entries_ok chk pre"
  shows "(case c of
            MarkerCfg f \<Rightarrow>
              prim_type f = ''Xform'' \<longrightarrow>
                init g chk p (pre @ (name, c) # post)
                  = Inl (ValueError ''Please use `FileMarkerCfg` for `prim_type` of `Xform`.'')
          | FileMarkerCfg f usd_path \<Rightarrow>
              (\<not> chk usd_path \<longrightarrow>
                 init g chk p (pre @ (name, c) # post)
                   = Inl (FileNotFoundError
                       (''USD file for the marker not found at: '' @ usd_path)))
              \<and> (chk usd_path \<and> prim_type f \<noteq> ''Xform'' \<longrightarrow>
                 init g chk p (pre @ (name, c) # post)
                   = Inl (ValueError
                       (''Please use `prim_type` of `Xform` for `FileMarkerCfg`. Received: ''
                          @ prim_type f @ ''.''))))"
  using assms by (cases c) (simp_all add: init_fail)

theorem init_first_offender_witness:
  "entries_ok (\<lambda>p. p = ''/frame.usd'') example_cfg
   \<and> init (\<lambda>p. p) (\<lambda>p. p = ''/frame.usd'') ''/World/Visuals/testMarkers''
        (example_cfg @ (''arrow'', FileMarkerCfg \<lparr>visible = True, prim_type = ''Sphere'',
            scale = None, color = None, attributes = None\<rparr> ''/frame.usd'') # xform_cfg)
      = Inl (ValueError ''Please use `prim_type` of `Xform` for `FileMarkerCfg`. Received: Sphere.'')
   \<and> init (\<lambda>p. p) (\<lambda>p. p = ''/frame.usd'') ''/World/Visuals/testMarkers''
        (example_cfg @ (''arrow'', FileMarkerCfg \<lparr>visible = True, prim_type = ''Xform'',
            scale = None, color = None, attributes = None\<rparr> ''/missing.usd'') # xform_cfg)
      = Inl (FileNotFoundError ''USD file for the marker not found at: /missing.usd'')
   \<and> init (\<lambda>p. p) (\<lambda>p. p = ''/frame.usd'') ''/World/Visuals/testMarkers''
        (example_cfg @ (''arrow'', MarkerCfg \<lparr>visible = True, prim_type = ''Xform'',
            scale = None, color = None, attributes = None\<rparr>) # missing_file_cfg)
      = Inl (ValueError ''Please use `FileMarkerCfg` for `prim_type` of `Xform`.'')"
proof -
  have ok: "entries_ok (\<lambda>p. p = ''/frame.usd'') example_cfg"
    by (simp add: entries_ok_def example_cfg_def)
  show ?thesis
    using init_first_offender [OF ok, where c = "FileMarkerCfg \<lparr>visible = True,
            prim_type = ''Sphere'', scale = None, color = None, attributes = None\<rparr>
            ''/frame.usd''"
        and g = "\<lambda>p. p" and p = "''/World/Visuals/testMarkers''" and name = "''arrow''"
        and post = xform_cfg]
      init_first_offender [OF ok, where c = "FileMarkerCfg \<lparr>visible = True,
            prim_type = ''Xform'', scale = None, color = None, attributes = None\<rparr>
            ''/missing.usd''"
        and g = "\<lambda>p. p" and p = "''/World/Visuals/testMarkers''" and name = "''arrow''"
        and post = xform_cfg]
      init_first_offender [OF ok, where c = "MarkerCfg \<lparr>visible = True,
            prim_type = ''Xform'', scale = None, color = None, attributes = None\<rparr>"
        and g = "\<lambda>p. p" and p = "''/World/Visuals/testMarkers''" and name = "''arrow''"
        and post = missing_file_cfg]
      ok
    by simp
qed

text \<open>
  C8 as stated fails: a file entry of kind \<open>Sphere\<close> whose file is missing is
  rejected with \<open>FileNotFoundError\<close>, the existence check coming first, not with
  the \<open>ValueError\<close> for its kind.
\<close>

theorem init_missing_file_counterexample:
  "init (\<lambda>p. p) (\<lambda>p. False) ''/World/Visuals/testMarkers'' missing_file_cfg
     = Inl (FileNotFoundError ''USD file for the marker not found at: /missing.usd'')"
  by (simp add: missing_file_cfg_def init_def)

end
